theory Spec2Isabelle
  imports Complex_Main
begin

section \<open>Values exchanged with the API server\<close>

text \<open>
  The client layer of \<^verbatim>\<open>llama_deploy/client/models/apiserver.py\<close> talks JSON over HTTP.
  A decoded JSON document is what Python's \<^verbatim>\<open>json.loads\<close> and httpx's
  \<^verbatim>\<open>Response.json()\<close> return: \<^verbatim>\<open>None\<close>, a bool, a number, a \<^verbatim>\<open>str\<close>, a
  \<^verbatim>\<open>list\<close> or a \<^verbatim>\<open>dict\<close> with string keys (kept in insertion order; the keys
  of a decoded dict are distinct, and a lookup takes the first pair with the key).
\<close>

datatype json =
    JNull
  | JBool bool
  | JNum rat
  | JStr string
  | JArray "json list"
  | JObject "(string \<times> json) list"

text \<open>Every exception the module can raise or let through is a value.\<close>

datatype error =
    ConnectError
  | HTTPStatusError nat
  | JSONDecodeError
  | ValidationError
  | KeyError string
  | AttributeError string
  | TypeError
  | TransportError string

text \<open>
  The shared \<^verbatim>\<open>Client\<close>: connection settings only. Its fields are read as
  \<^verbatim>\<open>self.client.api_server_url\<close>, \<^verbatim>\<open>self.client.disable_ssl\<close> and
  \<^verbatim>\<open>self.client.timeout\<close>.
\<close>

record client =
  api_server_url :: string
  disable_ssl :: bool
  timeout :: rat

text \<open>
  One HTTP request as the module issues it: the positional method and URL and the keyword
  options \<^verbatim>\<open>params=\<close>, \<^verbatim>\<open>json=\<close>, \<^verbatim>\<open>files=\<close>, \<^verbatim>\<open>verify=\<close> and
  \<^verbatim>\<open>timeout=\<close>. An option the call site does not pass is the empty list or \<open>None\<close>.
\<close>

record request =
  req_method :: string
  req_url :: string
  req_params :: "(string \<times> string) list"
  req_json :: "json option"
  req_files :: "(string \<times> string) list"
  req_verify :: bool
  req_timeout :: "rat option"

record response =
  status_code :: nat
  resp_text :: string

section \<open>Effects\<close>

text \<open>
  What a method does beyond returning: the requests it sends, the delays it sleeps
  (\<^verbatim>\<open>asyncio.sleep\<close>) and the events a generator yields, in the order they happen.
  A computation is the trace of its effects together with its outcome, an error (the
  exception raised) or a value.
\<close>

datatype effect =
    Request request
  | Sleep rat
  | Yield json

type_synonym 'a io = "effect list \<times> (error + 'a)"

definition ret :: "'a \<Rightarrow> 'a io" where
  "ret x = ([], Inr x)"

definition raise :: "error \<Rightarrow> 'a io" where
  "raise e = ([], Inl e)"

definition lift :: "error + 'a \<Rightarrow> 'a io" where
  "lift r = ([], r)"

definition io_bind :: "'a io \<Rightarrow> ('a \<Rightarrow> 'b io) \<Rightarrow> 'b io" where
  "io_bind m f =
     (case m of
        (t, Inl e) \<Rightarrow> (t, Inl e)
      | (t, Inr x) \<Rightarrow> (case f x of (t', r) \<Rightarrow> (t @ t', r)))"

text \<open>
  \<^verbatim>\<open>await self.client.request(method, url, **options)\<close>: the request goes out through
  the injected client, whose behaviour \<open>send\<close> (a connection failure, another error, or
  a response) is a parameter of every method.
\<close>

definition client_request :: "(request \<Rightarrow> error + response) \<Rightarrow> request \<Rightarrow> response io" where
  "client_request send req = ([Request req], send req)"

text \<open>
  \<^verbatim>\<open>r.json()\<close> decodes the body text with \<^verbatim>\<open>json.loads\<close>; the decoder \<open>loads\<close> is a
  parameter, and a body that is not JSON is \<open>Inl JSONDecodeError\<close>.
\<close>

definition resp_json :: "(string \<Rightarrow> error + json) \<Rightarrow> response \<Rightarrow> error + json" where
  "resp_json loads r = loads (resp_text r)"

section \<open>Resource objects\<close>

text \<open>
  A \<^verbatim>\<open>Model\<close> has the shared client, its \<^verbatim>\<open>id\<close> and the private flag
  \<^verbatim>\<open>_instance_is_sync\<close>; \<^verbatim>\<open>Session\<close>, \<^verbatim>\<open>Deployment\<close> and \<^verbatim>\<open>ApiServer\<close> add no
  field, \<^verbatim>\<open>Task\<close> adds \<^verbatim>\<open>deployment_id\<close> and \<^verbatim>\<open>session_id\<close>.
\<close>

record model =
  model_client :: client
  instance_is_sync :: bool
  model_id :: string

record task = model +
  deployment_id :: string
  session_id :: string

section \<open>Task.events\<close>

definition DEFAULT_POLL_INTERVAL :: rat where
  "DEFAULT_POLL_INTERVAL = 1 / 2"

text \<open>
  The streaming response of one connection attempt: its status code and the lines that
  \<^verbatim>\<open>response.aiter_lines()\<close> delivers before the server closes the stream.
\<close>

record stream_response =
  stream_status :: nat
  stream_lines :: "string list"

text \<open>
  httpx's \<^verbatim>\<open>raise_for_status\<close>: a response outside 2xx raises
  \<^verbatim>\<open>HTTPStatusError\<close>, which carries the response.
\<close>

definition raise_for_status :: "nat \<Rightarrow> error + unit" where
  "raise_for_status code =
     (if 200 \<le> code \<and> code < 300 then Inr () else Inl (HTTPStatusError code))"

text \<open>
  \<^verbatim>\<open>async for line in response.aiter_lines(): yield json.loads(line)\<close>. A line that
  does not decode raises after the earlier lines were yielded.
\<close>

fun yield_lines :: "(string \<Rightarrow> error + json) \<Rightarrow> string list \<Rightarrow> unit io" where
  "yield_lines loads [] = ([], Inr ())"
| "yield_lines loads (line # ls) =
     (case loads line of
        Inl e \<Rightarrow> ([], Inl e)
      | Inr json_line \<Rightarrow> (case yield_lines loads ls of (t, r) \<Rightarrow> (Yield json_line # t, r)))"

text \<open>The body of the \<^verbatim>\<open>try\<close> block for one attempt, after the request was sent.\<close>

definition attempt :: "(string \<Rightarrow> error + json) \<Rightarrow> error + stream_response \<Rightarrow> unit io" where
  "attempt loads a =
     (case a of
        Inl e \<Rightarrow> ([], Inl e)
      | Inr resp \<Rightarrow>
          (case raise_for_status (stream_status resp) of
             Inl e \<Rightarrow> ([], Inl e)
           | Inr _ \<Rightarrow> yield_lines loads (stream_lines resp)))"

text \<open>
  The \<^verbatim>\<open>while True\<close> loop. The server is a script of the outcomes of the successive
  connection attempts. The loop takes one outcome per iteration; when the script is used
  up and the loop has not left, the result is \<open>None\<close>: the generator is still polling.
  \<open>Some (Inr ())\<close> is the \<^verbatim>\<open>break\<close>, \<open>Some (Inl e)\<close> an exception that reaches the
  caller.
\<close>

fun events_loop ::
  "(string \<Rightarrow> error + json) \<Rightarrow> request \<Rightarrow> (error + stream_response) list
     \<Rightarrow> effect list \<times> (error + unit) option" where
  "events_loop loads req [] = ([], None)"
| "events_loop loads req (a # script) =
     (case attempt loads a of
        (t, Inr _) \<Rightarrow> (Request req # t, Some (Inr ()))
      | (t, Inl (HTTPStatusError code)) \<Rightarrow>
          (if code \<noteq> 404 then (Request req # t, Some (Inl (HTTPStatusError code)))
           else (case events_loop loads req script of
                   (t', r) \<Rightarrow> (Request req # t @ Sleep DEFAULT_POLL_INTERVAL # t', r)))
      | (t, Inl e) \<Rightarrow> (Request req # t, Some (Inl e)))"

text \<open>
  The request of each attempt: \<^verbatim>\<open>httpx.AsyncClient(verify=not self.client.disable_ssl)\<close>
  and \<^verbatim>\<open>client.stream("GET", events_url, params={"session_id": self.session_id})\<close>.
  No \<^verbatim>\<open>timeout=\<close> is passed.
\<close>

definition events_request :: "task \<Rightarrow> request" where
  "events_request self =
     \<lparr>req_method = ''GET'',
      req_url = api_server_url (model_client self) @ ''/deployments/'' @ deployment_id self
                @ ''/tasks/'' @ model_id self @ ''/events'',
      req_params = [(''session_id'', session_id self)],
      req_json = None,
      req_files = [],
      req_verify = (\<not> disable_ssl (model_client self)),
      req_timeout = None\<rparr>"

definition Task_events ::
  "(string \<Rightarrow> error + json) \<Rightarrow> task \<Rightarrow> (error + stream_response) list
     \<Rightarrow> effect list \<times> (error + unit) option" where
  "Task_events loads self script = events_loop loads (events_request self) script"

section \<open>Python operations on decoded JSON\<close>

text \<open>
  \<^verbatim>\<open>for x in v\<close>: a list gives its elements, a dict its keys, a \<^verbatim>\<open>str\<close> its
  characters (one-character strings; a \<open>char\<close> here is a byte, which is a character
  of Python's for ASCII text); anything else is not iterable.
\<close>

definition py_iter :: "json \<Rightarrow> error + json list" where
  "py_iter v =
     (case v of
        JArray xs \<Rightarrow> Inr xs
      | JObject kvs \<Rightarrow> Inr (map (\<lambda>kv. JStr (fst kv)) kvs)
      | JStr s \<Rightarrow> Inr (map (\<lambda>c. JStr [c]) s)
      | _ \<Rightarrow> Inl TypeError)"

text \<open>
  \<^verbatim>\<open>v.name\<close> for a field name such as \<^verbatim>\<open>task_id\<close>: no value that
  \<^verbatim>\<open>Response.json()\<close> returns (dict, list, str, number, bool, None) has such an
  attribute.
\<close>

definition py_getattr :: "json \<Rightarrow> string \<Rightarrow> error + json" where
  "py_getattr v name = Inl (AttributeError name)"

text \<open>\<^verbatim>\<open>v["k"]\<close> with a string key: only a dict can be subscripted by a string.\<close>

definition py_getitem :: "json \<Rightarrow> string \<Rightarrow> error + json" where
  "py_getitem v k =
     (case v of
        JObject kvs \<Rightarrow> (case map_of kvs k of None \<Rightarrow> Inl (KeyError k) | Some x \<Rightarrow> Inr x)
      | _ \<Rightarrow> Inl TypeError)"

text \<open>\<^verbatim>\<open>v.get("k")\<close>: a dict method, \<^verbatim>\<open>None\<close> for a missing key.\<close>

definition py_dict_get :: "json \<Rightarrow> string \<Rightarrow> error + json" where
  "py_dict_get v k =
     (case v of
        JObject kvs \<Rightarrow> (case map_of kvs k of None \<Rightarrow> Inr JNull | Some x \<Rightarrow> Inr x)
      | _ \<Rightarrow> Inl (AttributeError ''get''))"

text \<open>\<^verbatim>\<open>**v\<close>: the argument after \<^verbatim>\<open>**\<close> must be a mapping.\<close>

definition py_kwargs :: "json \<Rightarrow> error + (string \<times> json) list" where
  "py_kwargs v = (case v of JObject kvs \<Rightarrow> Inr kvs | _ \<Rightarrow> Inl TypeError)"

text \<open>Truth value, as \<^verbatim>\<open>or\<close> and \<^verbatim>\<open>if\<close> test it.\<close>

definition py_truthy :: "json \<Rightarrow> bool" where
  "py_truthy v =
     (case v of
        JNull \<Rightarrow> False
      | JBool b \<Rightarrow> b
      | JNum n \<Rightarrow> n \<noteq> 0
      | JStr s \<Rightarrow> s \<noteq> []
      | JArray xs \<Rightarrow> xs \<noteq> []
      | JObject kvs \<Rightarrow> kvs \<noteq> [])"

text \<open>
  \<^verbatim>\<open>f"{d}"\<close>: a \<^verbatim>\<open>str\<close> is inserted as it is; for any other value Python inserts
  \<^verbatim>\<open>str(d)\<close>, the parameter \<open>py_str\<close>.
\<close>

definition fstring :: "(json \<Rightarrow> string) \<Rightarrow> json \<Rightarrow> string" where
  "fstring py_str d = (case d of JStr s \<Rightarrow> s | _ \<Rightarrow> py_str d)"

text \<open>A field annotated \<^verbatim>\<open>str\<close> accepts a string and nothing else JSON can hold.\<close>

definition validate_str :: "json \<Rightarrow> error + string" where
  "validate_str v = (case v of JStr s \<Rightarrow> Inr s | _ \<Rightarrow> Inl ValidationError)"

fun validate_str_list :: "json list \<Rightarrow> error + string list" where
  "validate_str_list [] = Inr []"
| "validate_str_list (v # vs) =
     (case validate_str v of
        Inl e \<Rightarrow> Inl e
      | Inr s \<Rightarrow> (case validate_str_list vs of Inl e \<Rightarrow> Inl e | Inr ss \<Rightarrow> Inr (s # ss)))"

text \<open>
  A Python dict keeps one value per key, in insertion order; storing under a key that is
  present replaces the value in place.
\<close>

fun dict_set :: "(string \<times> 'a) list \<Rightarrow> string \<Rightarrow> 'a \<Rightarrow> (string \<times> 'a) list" where
  "dict_set [] k v = [(k, v)]"
| "dict_set ((k', v') # kvs) k v =
     (if k' = k then (k, v) # kvs else (k', v') # dict_set kvs k v)"

text \<open>
  The dict comprehension \<^verbatim>\<open>{"id": f(x) for x in xs}\<close> of the three listing methods:
  every element is stored under the literal key \<^verbatim>\<open>"id"\<close>.
\<close>

fun dict_comp_id :: "(json \<Rightarrow> 'a io) \<Rightarrow> json list \<Rightarrow> (string \<times> 'a) list \<Rightarrow> (string \<times> 'a) list io" where
  "dict_comp_id f [] acc = ([], Inr acc)"
| "dict_comp_id f (x # xs) acc =
     (case f x of
        (t, Inl e) \<Rightarrow> (t, Inl e)
      | (t, Inr v) \<Rightarrow>
          (case dict_comp_id f xs (dict_set acc ''id'' v) of (t', r) \<Rightarrow> (t @ t', r)))"

section \<open>Collections and construction\<close>

text \<open>
  A \<^verbatim>\<open>Collection\<close> has the shared client, the flag and its \<^verbatim>\<open>items\<close> dict;
  \<^verbatim>\<open>SessionCollection\<close> and \<^verbatim>\<open>TaskCollection\<close> add \<^verbatim>\<open>deployment_id\<close>.
\<close>

record 'a collection =
  coll_client :: client
  coll_is_sync :: bool
  items :: "(string \<times> 'a) list"

record 'a scoped_collection = "'a collection" +
  coll_deployment_id :: string

text \<open>
  Modelled from the spec: the classmethod \<^verbatim>\<open>instance\<close> of \<^verbatim>\<open>Model\<close> and
  \<^verbatim>\<open>Collection\<close>, defined in \<^verbatim>\<open>llama_deploy/client/models/model.py\<close>, which is not
  among the sources. The spec: its inputs are the owning client, a \<^verbatim>\<open>make_sync\<close>
  boolean, an \<^verbatim>\<open>id\<close> (for a Model) or an \<^verbatim>\<open>items\<close> mapping (for a Collection) and the
  subclass's extra fields; its output is a resource object in the requested calling mode;
  construction never issues network calls and has no side effect beyond allocating the
  object. A Model's \<^verbatim>\<open>id\<close> is an opaque string, and the fields the subclasses of this
  module declare are annotated \<^verbatim>\<open>str\<close>, so a value that is not a string is rejected.
\<close>

definition Model_instance :: "bool \<Rightarrow> client \<Rightarrow> json \<Rightarrow> model io" where
  "Model_instance make_sync c idv =
     (case validate_str idv of
        Inl e \<Rightarrow> raise e
      | Inr i \<Rightarrow> ret \<lparr>model_client = c, instance_is_sync = make_sync, model_id = i\<rparr>)"

definition Session_instance :: "bool \<Rightarrow> client \<Rightarrow> json \<Rightarrow> model io" where
  "Session_instance = Model_instance"

definition Deployment_instance :: "bool \<Rightarrow> client \<Rightarrow> json \<Rightarrow> model io" where
  "Deployment_instance = Model_instance"

definition ApiServer_instance :: "bool \<Rightarrow> client \<Rightarrow> json \<Rightarrow> model io" where
  "ApiServer_instance = Model_instance"

definition Task_instance :: "bool \<Rightarrow> client \<Rightarrow> string \<Rightarrow> json \<Rightarrow> json \<Rightarrow> task io" where
  "Task_instance make_sync c dep idv sidv =
     (case (validate_str idv, validate_str sidv) of
        (Inr i, Inr s) \<Rightarrow>
          ret \<lparr>model_client = c, instance_is_sync = make_sync, model_id = i,
               deployment_id = dep, session_id = s\<rparr>
      | _ \<Rightarrow> raise ValidationError)"

definition DeploymentCollection_instance ::
  "bool \<Rightarrow> client \<Rightarrow> (string \<times> model) list \<Rightarrow> model collection io" where
  "DeploymentCollection_instance make_sync c its =
     ret \<lparr>coll_client = c, coll_is_sync = make_sync, items = its\<rparr>"

definition SessionCollection_instance ::
  "bool \<Rightarrow> client \<Rightarrow> string \<Rightarrow> (string \<times> model) list \<Rightarrow> model scoped_collection io" where
  "SessionCollection_instance make_sync c dep its =
     ret \<lparr>coll_client = c, coll_is_sync = make_sync, items = its, coll_deployment_id = dep\<rparr>"

definition TaskCollection_instance ::
  "bool \<Rightarrow> client \<Rightarrow> string \<Rightarrow> (string \<times> task) list \<Rightarrow> task scoped_collection io" where
  "TaskCollection_instance make_sync c dep its =
     ret \<lparr>coll_client = c, coll_is_sync = make_sync, items = its, coll_deployment_id = dep\<rparr>"

section \<open>The methods\<close>

text \<open>
  A request with the method and the URL only; each call site adds the options it passes.
  \<^verbatim>\<open>verify\<close> is on unless a call site says otherwise.
\<close>

definition plain_request :: "string \<Rightarrow> string \<Rightarrow> request" where
  "plain_request m u =
     \<lparr>req_method = m, req_url = u, req_params = [], req_json = None, req_files = [],
      req_verify = True, req_timeout = None\<rparr>"

subsection \<open>SessionCollection\<close>

definition SessionCollection_delete ::
  "(request \<Rightarrow> error + response) \<Rightarrow> model scoped_collection \<Rightarrow> string \<Rightarrow> unit io" where
  "SessionCollection_delete send self sid =
     (let delete_url = api_server_url (coll_client self) @ ''/deployments/''
                         @ coll_deployment_id self @ ''/sessions/delete''
      in io_bind
           (client_request send
              ((plain_request ''POST'' delete_url)
                 \<lparr>req_params := [(''session_id'', sid)],
                  req_verify := \<not> disable_ssl (coll_client self),
                  req_timeout := Some (timeout (coll_client self))\<rparr>))
           (\<lambda>_. ret ()))"

text \<open>
  \<^verbatim>\<open>SessionDefinition\<close> comes from \<^verbatim>\<open>llama_deploy.types.core\<close>, which is not among
  the sources: the parameter \<open>session_definition\<close> takes the keyword arguments and gives
  the \<^verbatim>\<open>session_id\<close> of the definition built from them, or the error of its validation.
\<close>

definition SessionCollection_create ::
  "(request \<Rightarrow> error + response) \<Rightarrow> (string \<Rightarrow> error + json)
     \<Rightarrow> ((string \<times> json) list \<Rightarrow> error + string) \<Rightarrow> model scoped_collection \<Rightarrow> model io" where
  "SessionCollection_create send loads session_definition self =
     (let create_url = api_server_url (coll_client self) @ ''/deployments/''
                         @ coll_deployment_id self @ ''/sessions/create''
      in io_bind
           (client_request send
              ((plain_request ''POST'' create_url)
                 \<lparr>req_verify := \<not> disable_ssl (coll_client self),
                  req_timeout := Some (timeout (coll_client self))\<rparr>))
           (\<lambda>r. io_bind (lift (resp_json loads r))
           (\<lambda>body. io_bind (lift (py_kwargs body))
           (\<lambda>kwargs. io_bind (lift (session_definition kwargs))
           (\<lambda>sid. Session_instance (coll_is_sync self) (coll_client self) (JStr sid))))))"

subsection \<open>Task\<close>

text \<open>
  \<^verbatim>\<open>TaskResult.model_validate_json(v)\<close>: pydantic takes the JSON text as \<^verbatim>\<open>str\<close> (or
  bytes) and rejects any other input with a validation error. \<^verbatim>\<open>TaskResult\<close> comes
  from \<^verbatim>\<open>llama_deploy.types.core\<close>, which is not among the sources: the parameter
  \<open>task_result_of_text\<close> is its validation of a JSON text.
\<close>

definition model_validate_json :: "(string \<Rightarrow> error + 'r) \<Rightarrow> json \<Rightarrow> error + 'r" where
  "model_validate_json task_result_of_text v =
     (case v of JStr s \<Rightarrow> task_result_of_text s | _ \<Rightarrow> Inl ValidationError)"

definition Task_results ::
  "(request \<Rightarrow> error + response) \<Rightarrow> (string \<Rightarrow> error + json)
     \<Rightarrow> (string \<Rightarrow> error + 'r) \<Rightarrow> task \<Rightarrow> 'r io" where
  "Task_results send loads task_result_of_text self =
     (let results_url = api_server_url (model_client self) @ ''/deployments/''
                          @ deployment_id self @ ''/tasks/'' @ model_id self @ ''/results''
      in io_bind
           (client_request send
              ((plain_request ''GET'' results_url)
                 \<lparr>req_verify := \<not> disable_ssl (model_client self),
                  req_params := [(''session_id'', session_id self)],
                  req_timeout := Some (timeout (model_client self))\<rparr>))
           (\<lambda>r. io_bind (lift (resp_json loads r))
           (\<lambda>body. lift (model_validate_json task_result_of_text body))))"

subsection \<open>TaskCollection\<close>

text \<open>
  \<^verbatim>\<open>TaskDefinition\<close> comes from \<^verbatim>\<open>llama_deploy.types.core\<close> too: a task definition
  is any value, and the parameter \<open>model_dump\<close> is its \<^verbatim>\<open>model_dump()\<close>.
\<close>

definition TaskCollection_run ::
  "(request \<Rightarrow> error + response) \<Rightarrow> (string \<Rightarrow> error + json)
     \<Rightarrow> ('d \<Rightarrow> json) \<Rightarrow> task scoped_collection \<Rightarrow> 'd \<Rightarrow> json io" where
  "TaskCollection_run send loads model_dump self task_def =
     (let run_url = api_server_url (coll_client self) @ ''/deployments/''
                      @ coll_deployment_id self @ ''/tasks/run''
      in io_bind
           (client_request send
              ((plain_request ''POST'' run_url)
                 \<lparr>req_verify := \<not> disable_ssl (coll_client self),
                  req_json := Some (model_dump task_def),
                  req_timeout := Some (timeout (coll_client self))\<rparr>))
           (\<lambda>r. lift (resp_json loads r)))"

definition TaskCollection_create ::
  "(request \<Rightarrow> error + response) \<Rightarrow> (string \<Rightarrow> error + json)
     \<Rightarrow> ('d \<Rightarrow> json) \<Rightarrow> task scoped_collection \<Rightarrow> 'd \<Rightarrow> task io" where
  "TaskCollection_create send loads model_dump self task_def =
     (let create_url = api_server_url (coll_client self) @ ''/deployments/''
                         @ coll_deployment_id self @ ''/tasks/create''
      in io_bind
           (client_request send
              ((plain_request ''POST'' create_url)
                 \<lparr>req_verify := \<not> disable_ssl (coll_client self),
                  req_json := Some (model_dump task_def),
                  req_timeout := Some (timeout (coll_client self))\<rparr>))
           (\<lambda>r. io_bind (lift (resp_json loads r))
           (\<lambda>response_fields. io_bind (lift (py_getitem response_fields ''task_id''))
           (\<lambda>tid. io_bind (lift (py_getitem response_fields ''session_id''))
           (\<lambda>sid. Task_instance (coll_is_sync self) (coll_client self)
                     (coll_deployment_id self) tid sid)))))"

subsection \<open>Deployment\<close>

definition Deployment_tasks ::
  "(request \<Rightarrow> error + response) \<Rightarrow> (string \<Rightarrow> error + json)
     \<Rightarrow> model \<Rightarrow> task scoped_collection io" where
  "Deployment_tasks send loads self =
     (let tasks_url = api_server_url (model_client self) @ ''/deployments/''
                        @ model_id self @ ''/tasks''
      in io_bind
           (client_request send
              ((plain_request ''GET'' tasks_url)
                 \<lparr>req_verify := \<not> disable_ssl (model_client self),
                  req_timeout := Some (timeout (model_client self))\<rparr>))
           (\<lambda>r. io_bind (lift (resp_json loads r))
           (\<lambda>body. io_bind (lift (py_iter body))
           (\<lambda>task_defs. io_bind
              (dict_comp_id
                 (\<lambda>task_def. io_bind (lift (py_getattr task_def ''task_id''))
                   (\<lambda>tid. io_bind (lift (py_getattr task_def ''session_id''))
                   (\<lambda>sid. Task_instance (instance_is_sync self) (model_client self)
                             (model_id self) tid sid)))
                 task_defs [])
           (\<lambda>its. TaskCollection_instance (instance_is_sync self) (model_client self)
                     (model_id self) its)))))"

definition Deployment_sessions ::
  "(request \<Rightarrow> error + response) \<Rightarrow> (string \<Rightarrow> error + json)
     \<Rightarrow> model \<Rightarrow> model scoped_collection io" where
  "Deployment_sessions send loads self =
     (let sessions_url = api_server_url (model_client self) @ ''/deployments/''
                           @ model_id self @ ''/sessions''
      in io_bind
           (client_request send
              ((plain_request ''GET'' sessions_url)
                 \<lparr>req_verify := \<not> disable_ssl (model_client self),
                  req_timeout := Some (timeout (model_client self))\<rparr>))
           (\<lambda>r. io_bind (lift (resp_json loads r))
           (\<lambda>body. io_bind (lift (py_iter body))
           (\<lambda>session_defs. io_bind
              (dict_comp_id
                 (\<lambda>session_def. io_bind (lift (py_getattr session_def ''session_id''))
                   (\<lambda>sid. Session_instance (instance_is_sync self) (model_client self) sid))
                 session_defs [])
           (\<lambda>its. SessionCollection_instance (instance_is_sync self) (model_client self)
                     (model_id self) its)))))"

subsection \<open>DeploymentCollection\<close>

text \<open>The argument \<open>config\<close> is what \<^verbatim>\<open>config.read()\<close> returns, the text of the file.\<close>

definition DeploymentCollection_create ::
  "(request \<Rightarrow> error + response) \<Rightarrow> (string \<Rightarrow> error + json)
     \<Rightarrow> model collection \<Rightarrow> string \<Rightarrow> model io" where
  "DeploymentCollection_create send loads self config =
     (let create_url = api_server_url (coll_client self) @ ''/deployments/create'';
          files = [(''config_file'', config)]
      in io_bind
           (client_request send
              ((plain_request ''POST'' create_url)
                 \<lparr>req_files := files,
                  req_verify := \<not> disable_ssl (coll_client self),
                  req_timeout := Some (timeout (coll_client self))\<rparr>))
           (\<lambda>r. io_bind (lift (resp_json loads r))
           (\<lambda>body. io_bind (lift (py_dict_get body ''name''))
           (\<lambda>name. Deployment_instance (coll_is_sync self) (coll_client self) name))))"

definition DeploymentCollection_get ::
  "(request \<Rightarrow> error + response) \<Rightarrow> model collection \<Rightarrow> string \<Rightarrow> model io" where
  "DeploymentCollection_get send self dep =
     (let get_url = api_server_url (coll_client self) @ ''/deployments/'' @ dep
      in io_bind
           (client_request send
              ((plain_request ''GET'' get_url)
                 \<lparr>req_verify := \<not> disable_ssl (coll_client self),
                  req_timeout := Some (timeout (coll_client self))\<rparr>))
           (\<lambda>_. Deployment_instance (coll_is_sync self) (coll_client self) (JStr dep)))"

subsection \<open>ApiServer\<close>

datatype StatusEnum = HEALTHY | UNHEALTHY | DOWN

text \<open>
  \<^verbatim>\<open>Status\<close> comes from \<^verbatim>\<open>llama_deploy.types.apiserver\<close>, which is not among the
  sources. Modelled from the spec: a status value, a status message and an optional list
  of deployment names; a \<^verbatim>\<open>deployments\<close> argument that is not a list of strings is
  rejected by its validation.
\<close>

record Status =
  status :: StatusEnum
  status_message :: string
  deployments :: "string list option"

definition validate_deployments :: "json \<Rightarrow> error + string list" where
  "validate_deployments v =
     (case v of JArray xs \<Rightarrow> validate_str_list xs | _ \<Rightarrow> Inl ValidationError)"

definition newline :: string where
  "newline = [CHR 0x0A]"

text \<open>
  The \<^verbatim>\<open>try\<close> block holds the request only: \<^verbatim>\<open>httpx.ConnectError\<close> gives
  the DOWN status, any other exception of the request propagates. With a response, the
  branch for a status code of 400 or more decodes the body (\<^verbatim>\<open>body = r.json()\<close>)
  before it returns the UNHEALTHY status; the other branch builds the description from
  \<^verbatim>\<open>body.get("deployments") or []\<close>.
\<close>

definition ApiServer_status ::
  "(request \<Rightarrow> error + response) \<Rightarrow> (string \<Rightarrow> error + json)
     \<Rightarrow> (json \<Rightarrow> string) \<Rightarrow> model \<Rightarrow> Status io" where
  "ApiServer_status send loads py_str self =
     (let status_url = api_server_url (model_client self) @ ''/status/'';
          req = (plain_request ''GET'' status_url)
                  \<lparr>req_verify := \<not> disable_ssl (model_client self),
                   req_timeout := Some (timeout (model_client self))\<rparr>
      in case client_request send req of
           (t, Inl ConnectError) \<Rightarrow>
             (t, Inr \<lparr>status = DOWN, status_message = ''API Server is down'',
                      deployments = None\<rparr>)
         | (t, Inl e) \<Rightarrow> (t, Inl e)
         | (t, Inr r) \<Rightarrow>
             io_bind (t, Inr ())
               (\<lambda>_. if status_code r \<ge> 400 then
                       io_bind (lift (resp_json loads r))
                         (\<lambda>body. ret \<lparr>status = UNHEALTHY, status_message = resp_text r,
                                       deployments = None\<rparr>)
                     else
                       io_bind (lift (resp_json loads r))
                       (\<lambda>body. io_bind (lift (py_dict_get body ''deployments''))
                       (\<lambda>got. let deps = (if py_truthy got then got else JArray []) in
                         io_bind
                           (if py_truthy deps then
                              io_bind (lift (py_iter deps))
                                (\<lambda>ds. ret (''Llama Deploy is up and running.''
                                             @ newline @ ''Active deployments:''
                                             @ concat (map (\<lambda>d. newline @ ''- '' @ fstring py_str d) ds)))
                            else
                              ret (''Llama Deploy is up and running.''
                                   @ newline @ ''Currently there are no active deployments''))
                       (\<lambda>description. io_bind (lift (validate_deployments deps))
                       (\<lambda>names. ret \<lparr>status = HEALTHY, status_message = description,
                                      deployments = Some names\<rparr>))))))"

definition ApiServer_deployments ::
  "(request \<Rightarrow> error + response) \<Rightarrow> (string \<Rightarrow> error + json)
     \<Rightarrow> model \<Rightarrow> model collection io" where
  "ApiServer_deployments send loads self =
     (let status_url = api_server_url (model_client self) @ ''/deployments/''
      in io_bind
           (client_request send
              ((plain_request ''GET'' status_url)
                 \<lparr>req_verify := \<not> disable_ssl (model_client self),
                  req_timeout := Some (timeout (model_client self))\<rparr>))
           (\<lambda>r. io_bind (lift (resp_json loads r))
           (\<lambda>body. io_bind (lift (py_iter body))
           (\<lambda>names. io_bind
              (dict_comp_id
                 (\<lambda>name. Deployment_instance (instance_is_sync self) (model_client self) name)
                 names [])
           (\<lambda>its. DeploymentCollection_instance (instance_is_sync self)
                     (model_client self) its)))))"

section \<open>Scenario data\<close>

text \<open>
  Concrete inputs for the scenarios evaluated below. A decoder is given by its graph on
  the texts of a scenario: a text in the table decodes to the value beside it, any other
  text is not JSON.
\<close>

definition decoder :: "(string \<times> json) list \<Rightarrow> string \<Rightarrow> error + json" where
  "decoder table s = (case map_of table s of Some v \<Rightarrow> Inr v | None \<Rightarrow> Inl JSONDecodeError)"

text \<open>The JSON encoding of a string: quotes around it, a backslash before \<^verbatim>\<open>"\<close> and \<^verbatim>\<open>\\<close>.\<close>

definition json_quote :: "string \<Rightarrow> string" where
  "json_quote s =
     [CHR 0x22]
       @ concat (map (\<lambda>c. if c = CHR 0x22 \<or> c = CHR 0x5C then [CHR 0x5C, c] else [c]) s)
       @ [CHR 0x22]"

definition local_client :: client where
  "local_client =
     \<lparr>api_server_url = ''http://localhost:4501'', disable_ssl = False, timeout = 120\<rparr>"

definition a_task :: task where
  "a_task =
     \<lparr>model_client = local_client, instance_is_sync = False, model_id = ''t1'',
      deployment_id = ''d1'', session_id = ''s1''\<rparr>"

definition an_apiserver :: model where
  "an_apiserver =
     \<lparr>model_client = local_client, instance_is_sync = True, model_id = ''apiserver''\<rparr>"

definition sync_deployment :: model where
  "sync_deployment =
     \<lparr>model_client = local_client, instance_is_sync = True, model_id = ''d1''\<rparr>"

definition sync_deployments :: "model collection" where
  "sync_deployments = \<lparr>coll_client = local_client, coll_is_sync = True, items = []\<rparr>"

definition sync_sessions :: "model scoped_collection" where
  "sync_sessions =
     \<lparr>coll_client = local_client, coll_is_sync = True, items = [],
      coll_deployment_id = ''d1''\<rparr>"

definition sync_tasks :: "task scoped_collection" where
  "sync_tasks =
     \<lparr>coll_client = local_client, coll_is_sync = True, items = [],
      coll_deployment_id = ''d1''\<rparr>"

text \<open>A session definition that takes the \<^verbatim>\<open>session_id\<close> argument it is given.\<close>

definition given_session_id :: "(string \<times> json) list \<Rightarrow> error + string" where
  "given_session_id kwargs =
     (case map_of kwargs ''session_id'' of Some (JStr s) \<Rightarrow> Inr s | _ \<Rightarrow> Inl ValidationError)"

text \<open>The JSON text of a task result, and the object it decodes to.\<close>

definition result_text :: string where
  \<open>result_text = ''{"task_id": "t1", "history": [], "result": "ok"}''\<close>

definition result_object :: json where
  "result_object =
     JObject [(''task_id'', JStr ''t1''), (''history'', JArray []), (''result'', JStr ''ok'')]"

text \<open>
  A request effect carries the client's options when its \<^verbatim>\<open>verify\<close> is
  \<^verbatim>\<open>not client.disable_ssl\<close> and its \<^verbatim>\<open>timeout\<close> is \<^verbatim>\<open>client.timeout\<close>.
\<close>

definition carries_options :: "client \<Rightarrow> effect \<Rightarrow> bool" where
  "carries_options c e =
     (case e of
        Request req \<Rightarrow> req_verify req = (\<not> disable_ssl c) \<and> req_timeout req = Some (timeout c)
      | _ \<Rightarrow> True)"

section \<open>Properties\<close>

subsection \<open>Auxiliary facts\<close>

lemma snd_io_bind_Inr:
  "snd (io_bind m f) = Inr y \<longleftrightarrow> (\<exists>x. snd m = Inr x \<and> snd (f x) = Inr y)"
  by (cases m; cases "snd m") (auto simp: io_bind_def split: prod.splits)

lemma snd_lift [simp]: "snd (lift r) = r"
  by (simp add: lift_def)

lemma snd_ret [simp]: "snd (ret x) = Inr x"
  by (simp add: ret_def)

lemma snd_raise [simp]: "snd (raise e) = Inl e"
  by (simp add: raise_def)

lemma yield_lines_all_decode:
  "map loads ls = map Inr evs \<Longrightarrow> yield_lines loads ls = (map Yield evs, Inr ())"
  by (induction ls arbitrary: evs) auto

lemma attempt_404:
  "stream_status r = 404 \<Longrightarrow> attempt loads (Inr r) = ([], Inl (HTTPStatusError 404))"
  by (simp add: attempt_def raise_for_status_def)

text \<open>Each 404 at the head of the script costs one request and one sleep, and the loop goes on.\<close>

lemma events_loop_404_prefix:
  assumes "\<forall>a \<in> set pre. \<exists>r. a = Inr r \<and> stream_status r = 404"
  shows "events_loop loads req (pre @ script) =
           (concat (map (\<lambda>_. [Request req, Sleep DEFAULT_POLL_INTERVAL]) pre)
              @ fst (events_loop loads req script),
            snd (events_loop loads req script))"
  using assms
proof (induction pre)
  case Nil
  then show ?case by simp
next
  case (Cons a pre)
  then obtain r where a: "a = Inr r" and s: "stream_status r = 404" by auto
  from Cons have IH: "events_loop loads req (pre @ script) =
           (concat (map (\<lambda>_. [Request req, Sleep DEFAULT_POLL_INTERVAL]) pre)
              @ fst (events_loop loads req script),
            snd (events_loop loads req script))" by simp
  show ?case by (simp add: a attempt_404 [OF s] IH)
qed

subsection \<open>Task.events\<close>

text \<open>
  C1. For \<^verbatim>\<open>Task.events\<close>, a connection attempt answered 404 does not fail the
  operation: it sleeps the poll interval (0.5) and retries. After any number of 404
  answers, a 200 answer whose lines all decode makes the generator yield exactly the
  decoded events, in order, preceded by one request and one sleep per 404 and the request
  of the successful attempt, and end without an error. With two 404 answers and three
  lines this is the scenario [404, 404, 200-with-3-lines].
\<close>

theorem events_retries_on_404:
  assumes "\<forall>a \<in> set pre. \<exists>r. a = Inr r \<and> stream_status r = 404"
    and "stream_status ok = 200"
    and "map loads (stream_lines ok) = map Inr evs"
  shows "Task_events loads self (pre @ Inr ok # script) =
           (concat (map (\<lambda>_. [Request (events_request self), Sleep (1 / 2)]) pre)
              @ Request (events_request self) # map Yield evs,
            Some (Inr ()))"
proof -
  have "attempt loads (Inr ok) = (map Yield evs, Inr ())"
    using assms(2,3) by (simp add: attempt_def raise_for_status_def yield_lines_all_decode)
  then have "events_loop loads (events_request self) (Inr ok # script) =
      (Request (events_request self) # map Yield evs, Some (Inr ()))"
    by simp
  then show ?thesis
    unfolding Task_events_def
    by (simp add: events_loop_404_prefix [OF assms(1)] DEFAULT_POLL_INTERVAL_def)
qed

text \<open>
  The scenario of C1: the answers 404, 404 and 200 with three lines give three events
  after two sleeps of 1/2.
\<close>

theorem events_retries_on_404_witness:
  \<open>stream_status
      \<lparr>stream_status = 200, stream_lines = [''{"n": 1}'', ''{"n": 2}'', ''{"n": 3}'']\<rparr> = 200
   \<and> map (decoder [(''{"n": 1}'', JObject [(''n'', JNum 1)]),
                     (''{"n": 2}'', JObject [(''n'', JNum 2)]),
                     (''{"n": 3}'', JObject [(''n'', JNum 3)])])
          [''{"n": 1}'', ''{"n": 2}'', ''{"n": 3}'']
       = map Inr [JObject [(''n'', JNum 1)], JObject [(''n'', JNum 2)], JObject [(''n'', JNum 3)]]
   \<and> Task_events
         (decoder [(''{"n": 1}'', JObject [(''n'', JNum 1)]),
                   (''{"n": 2}'', JObject [(''n'', JNum 2)]),
                   (''{"n": 3}'', JObject [(''n'', JNum 3)])])
         a_task
         [Inr \<lparr>stream_status = 404, stream_lines = []\<rparr>,
          Inr \<lparr>stream_status = 404, stream_lines = []\<rparr>,
          Inr \<lparr>stream_status = 200, stream_lines = [''{"n": 1}'', ''{"n": 2}'', ''{"n": 3}'']\<rparr>]
       = ([Request (events_request a_task), Sleep (1 / 2),
           Request (events_request a_task), Sleep (1 / 2),
           Request (events_request a_task),
           Yield (JObject [(''n'', JNum 1)]), Yield (JObject [(''n'', JNum 2)]),
           Yield (JObject [(''n'', JNum 3)])],
          Some (Inr ()))\<close>
proof -
  let ?pre = "[Inr \<lparr>stream_status = 404, stream_lines = []\<rparr>,
               Inr \<lparr>stream_status = 404, stream_lines = []\<rparr>] :: (error + stream_response) list"
  let ?ok = \<open>\<lparr>stream_status = 200, stream_lines = [''{"n": 1}'', ''{"n": 2}'', ''{"n": 3}'']\<rparr>\<close>
  let ?loads = \<open>decoder [(''{"n": 1}'', JObject [(''n'', JNum 1)]),
                   (''{"n": 2}'', JObject [(''n'', JNum 2)]),
                   (''{"n": 3}'', JObject [(''n'', JNum 3)])]\<close>
  let ?evs = "[JObject [(''n'', JNum 1)], JObject [(''n'', JNum 2)], JObject [(''n'', JNum 3)]]"
  have h1: "\<forall>a \<in> set ?pre. \<exists>r. a = Inr r \<and> stream_status r = 404" by simp
  have h2: "stream_status ?ok = 200" by simp
  have h3: "map ?loads (stream_lines ?ok) = map Inr ?evs" by (simp add: decoder_def)
  from events_retries_on_404 [OF h1 h2 h3, of a_task "[]"] h2 h3
  show ?thesis by simp
qed

text \<open>
  C2. For \<^verbatim>\<open>Task.events\<close>, an HTTP error status other than 404 is fatal: the error
  reaches the caller at once. The trace holds the request of the attempt and nothing
  else: no sleep and no yielded event.
\<close>

theorem events_fatal_on_other_status:
  assumes "400 \<le> stream_status r" and "stream_status r \<noteq> 404"
  shows "Task_events loads self (Inr r # script) =
           ([Request (events_request self)], Some (Inl (HTTPStatusError (stream_status r))))"
  using assms by (simp add: Task_events_def attempt_def raise_for_status_def)

text \<open>The scenario of C2: a single 500 answer.\<close>

theorem events_fatal_on_other_status_witness:
  "400 \<le> stream_status \<lparr>stream_status = 500, stream_lines = []\<rparr>
   \<and> stream_status \<lparr>stream_status = 500, stream_lines = []\<rparr> \<noteq> 404
   \<and> Task_events (decoder []) a_task [Inr \<lparr>stream_status = 500, stream_lines = []\<rparr>]
       = ([Request (events_request a_task)], Some (Inl (HTTPStatusError 500)))"
  using events_fatal_on_other_status
          [of "\<lparr>stream_status = 500, stream_lines = []\<rparr>" "decoder []" a_task "[]"]
  by simp

subsection \<open>Traces of the methods that go through the client\<close>

lemma fst_io_bind:
  "fst (io_bind m f) = fst m @ (case snd m of Inl e \<Rightarrow> [] | Inr x \<Rightarrow> fst (f x))"
  by (cases m; cases "snd m") (auto simp: io_bind_def split: prod.splits)

lemma fst_lift [simp]: "fst (lift r) = []"
  by (simp add: lift_def)

lemma fst_ret [simp]: "fst (ret x) = []"
  by (simp add: ret_def)

lemma fst_raise [simp]: "fst (raise e) = []"
  by (simp add: raise_def)

lemma fst_Model_instance [simp]: "fst (Model_instance ms c v) = []"
  by (simp add: Model_instance_def split: sum.splits)

lemma fst_Task_instance [simp]: "fst (Task_instance ms c dep v w) = []"
  by (simp add: Task_instance_def split: sum.splits)

lemma fst_dict_comp_id:
  "(\<And>x. fst (f x) = []) \<Longrightarrow> fst (dict_comp_id f xs acc) = []"
proof (induction xs arbitrary: acc)
  case Nil
  then show ?case by simp
next
  case (Cons x xs)
  obtain t r where fx: "f x = (t, r)" by (cases "f x")
  with Cons.prems [of x] have t: "t = []" by simp
  show ?case
  proof (cases r)
    case (Inl e)
    with fx t show ?thesis by simp
  next
    case (Inr v)
    with fx t Cons.IH [OF Cons.prems, of "dict_set acc ''id'' v"] show ?thesis
      by (simp split: prod.splits)
  qed
qed

text \<open>
  Every method that calls \<^verbatim>\<open>self.client.request\<close> passes
  \<^verbatim>\<open>verify=not self.client.disable_ssl\<close> and \<^verbatim>\<open>timeout=self.client.timeout\<close>.
\<close>

lemma delete_carries:
  "\<forall>e \<in> set (fst (SessionCollection_delete send sc sid)). carries_options (coll_client sc) e"
  by (simp add: SessionCollection_delete_def Let_def fst_io_bind client_request_def
      carries_options_def plain_request_def split: sum.splits)

lemma session_create_carries:
  "\<forall>e \<in> set (fst (SessionCollection_create send loads sd sc)). carries_options (coll_client sc) e"
  by (simp add: SessionCollection_create_def Let_def fst_io_bind client_request_def
      carries_options_def plain_request_def Session_instance_def split: sum.splits)

lemma results_carries:
  "\<forall>e \<in> set (fst (Task_results send loads tr tk)). carries_options (model_client tk) e"
  by (simp add: Task_results_def Let_def fst_io_bind client_request_def
      carries_options_def plain_request_def split: sum.splits)

lemma run_carries:
  "\<forall>e \<in> set (fst (TaskCollection_run send loads md tc td)). carries_options (coll_client tc) e"
  by (simp add: TaskCollection_run_def Let_def fst_io_bind client_request_def
      carries_options_def plain_request_def split: sum.splits)

lemma task_create_carries:
  "\<forall>e \<in> set (fst (TaskCollection_create send loads md tc td)). carries_options (coll_client tc) e"
  by (simp add: TaskCollection_create_def Let_def fst_io_bind client_request_def
      carries_options_def plain_request_def split: sum.splits)

lemma tasks_carries:
  "\<forall>e \<in> set (fst (Deployment_tasks send loads d)). carries_options (model_client d) e"
  by (simp add: Deployment_tasks_def Let_def fst_io_bind client_request_def
      carries_options_def plain_request_def fst_dict_comp_id TaskCollection_instance_def
      split: sum.splits)

lemma sessions_carries:
  "\<forall>e \<in> set (fst (Deployment_sessions send loads d)). carries_options (model_client d) e"
  by (simp add: Deployment_sessions_def Let_def fst_io_bind client_request_def
      carries_options_def plain_request_def fst_dict_comp_id SessionCollection_instance_def
      Session_instance_def split: sum.splits)

lemma deployment_create_carries:
  "\<forall>e \<in> set (fst (DeploymentCollection_create send loads dc config)).
     carries_options (coll_client dc) e"
  by (simp add: DeploymentCollection_create_def Let_def fst_io_bind client_request_def
      carries_options_def plain_request_def Deployment_instance_def split: sum.splits)

lemma deployment_get_carries:
  "\<forall>e \<in> set (fst (DeploymentCollection_get send dc dep)). carries_options (coll_client dc) e"
  by (simp add: DeploymentCollection_get_def Let_def fst_io_bind client_request_def
      carries_options_def plain_request_def Deployment_instance_def split: sum.splits)

lemma status_carries:
  "\<forall>e \<in> set (fst (ApiServer_status send loads py_str a)). carries_options (model_client a) e"
  by (simp add: ApiServer_status_def Let_def fst_io_bind client_request_def
      carries_options_def plain_request_def split: sum.splits error.splits)

lemma deployments_carries:
  "\<forall>e \<in> set (fst (ApiServer_deployments send loads a)). carries_options (model_client a) e"
  by (simp add: ApiServer_deployments_def Let_def fst_io_bind client_request_def
      carries_options_def plain_request_def fst_dict_comp_id DeploymentCollection_instance_def
      Deployment_instance_def split: sum.splits)

text \<open>
  C7. Every remote request of this layer, the streaming request of \<^verbatim>\<open>Task.events\<close>
  included, is claimed to carry the client's TLS-verification option and its timeout. The
  methods that go through \<^verbatim>\<open>client.request\<close> do (the lemmas above). \<^verbatim>\<open>Task.events\<close>
  opens its own \<^verbatim>\<open>httpx.AsyncClient(verify=...)\<close> and passes no timeout: for a client
  whose timeout is 120, the request of the events stream has \<open>req_timeout = None\<close>.
\<close>

theorem events_request_has_no_timeout:
  "timeout (model_client a_task) = 120
   \<and> Task_events loads a_task [Inr \<lparr>stream_status = 200, stream_lines = []\<rparr>]
       = ([Request \<lparr>req_method = ''GET'',
                     req_url = ''http://localhost:4501/deployments/d1/tasks/t1/events'',
                     req_params = [(''session_id'', ''s1'')], req_json = None, req_files = [],
                     req_verify = True, req_timeout = None\<rparr>],
          Some (Inr ()))"
  by (simp add: Task_events_def events_request_def attempt_def raise_for_status_def a_task_def
      local_client_def)

subsection \<open>ApiServer.status\<close>

text \<open>What holds of the status mapping: the three outcomes, when the body decodes.\<close>

lemma status_down:
  "send ((plain_request ''GET'' (api_server_url (model_client self) @ ''/status/''))
           \<lparr>req_verify := \<not> disable_ssl (model_client self),
            req_timeout := Some (timeout (model_client self))\<rparr>) = Inl ConnectError
   \<Longrightarrow> snd (ApiServer_status send loads py_str self)
       = Inr \<lparr>status = DOWN, status_message = ''API Server is down'', deployments = None\<rparr>"
  by (simp add: ApiServer_status_def Let_def client_request_def)

lemma status_unhealthy_json_body:
  "400 \<le> status_code r \<Longrightarrow> loads (resp_text r) = Inr body
   \<Longrightarrow> snd (ApiServer_status (\<lambda>_. Inr r) loads py_str self)
       = Inr \<lparr>status = UNHEALTHY, status_message = resp_text r, deployments = None\<rparr>"
  by (simp add: ApiServer_status_def Let_def client_request_def io_bind_def lift_def ret_def
      resp_json_def)

lemma status_healthy_two_deployments:
  "status_code r = 200
   \<Longrightarrow> loads (resp_text r) = Inr (JObject [(''deployments'', JArray [JStr ''a'', JStr ''b''])])
   \<Longrightarrow> snd (ApiServer_status (\<lambda>_. Inr r) loads py_str self)
       = Inr \<lparr>status = HEALTHY,
               status_message = ''Llama Deploy is up and running.'' @ newline
                  @ ''Active deployments:'' @ newline @ ''- a'' @ newline @ ''- b'',
               deployments = Some [''a'', ''b'']\<rparr>"
  by (simp add: ApiServer_status_def Let_def client_request_def io_bind_def lift_def ret_def
      resp_json_def py_dict_get_def py_truthy_def py_iter_def fstring_def validate_deployments_def
      validate_str_def)

text \<open>
  Where it fails: in the branch for a status code of 400 or more the method first runs
  \<^verbatim>\<open>body = r.json()\<close>, whose result it never uses, so a body that does not decode raises.
\<close>

lemma status_error_body_not_json:
  "400 \<le> status_code r \<Longrightarrow> loads (resp_text r) = Inl e
   \<Longrightarrow> snd (ApiServer_status (\<lambda>_. Inr r) loads py_str self) = Inl e"
  by (simp add: ApiServer_status_def Let_def client_request_def io_bind_def lift_def ret_def
      resp_json_def)

text \<open>
  C3. \<^verbatim>\<open>ApiServer.status\<close> is claimed to map a connection failure to DOWN, a response
  with status code 400 or more to UNHEALTHY, and a 200 response with the body
  \<^verbatim>\<open>{"deployments": ["a","b"]}\<close> to HEALTHY with both names. The first and the third
  hold (\<open>status_down\<close>, \<open>status_healthy_two_deployments\<close>). The second fails on a
  response whose body is not JSON: for HTTP 500 with the plain-text body
  \<^verbatim>\<open>Internal Server Error\<close> the method sends its one request and raises the decode
  error instead of returning UNHEALTHY.
\<close>

theorem status_500_text_body_raises:
  "ApiServer_status
     (\<lambda>_. Inr \<lparr>status_code = 500, resp_text = ''Internal Server Error''\<rparr>)
     (decoder []) py_str an_apiserver
   = ([Request \<lparr>req_method = ''GET'', req_url = ''http://localhost:4501/status/'',
                 req_params = [], req_json = None, req_files = [], req_verify = True,
                 req_timeout = Some 120\<rparr>],
      Inl JSONDecodeError)"
  by (simp add: ApiServer_status_def Let_def client_request_def plain_request_def io_bind_def
      lift_def resp_json_def decoder_def an_apiserver_def local_client_def)

text \<open>
  C8. For every response to the status check with status code 400 or more, whatever its
  body, \<^verbatim>\<open>ApiServer.status\<close> is claimed to return UNHEALTHY and not to raise. It raises
  on a body that is not JSON: for HTTP 502 with the HTML body a proxy sends, the outcome
  is the decode error.
\<close>

theorem status_502_html_body_raises:
  "ApiServer_status
     (\<lambda>_. Inr \<lparr>status_code = 502, resp_text = ''<html><body>Bad Gateway</body></html>''\<rparr>)
     (decoder []) py_str an_apiserver
   = ([Request \<lparr>req_method = ''GET'', req_url = ''http://localhost:4501/status/'',
                 req_params = [], req_json = None, req_files = [], req_verify = True,
                 req_timeout = Some 120\<rparr>],
      Inl JSONDecodeError)"
  by (simp add: ApiServer_status_def Let_def client_request_def plain_request_def io_bind_def
      lift_def resp_json_def decoder_def an_apiserver_def local_client_def)

subsection \<open>Propagation of the calling mode\<close>

lemma Model_instance_flag:
  "snd (Model_instance ms c v) = Inr m \<Longrightarrow> instance_is_sync m = ms"
  by (auto simp: Model_instance_def split: sum.splits)

lemma Task_instance_flag:
  "snd (Task_instance ms c dep v w) = Inr tk \<Longrightarrow> instance_is_sync tk = ms"
  by (auto simp: Task_instance_def split: sum.splits)

lemma dict_set_pred:
  "\<forall>kv \<in> set acc. P (snd kv) \<Longrightarrow> P v \<Longrightarrow> \<forall>kv \<in> set (dict_set acc k v). P (snd kv)"
  by (induction acc) (fastforce split: if_splits)+

text \<open>What holds of every value the comprehension builds holds of every item of its dict.\<close>

lemma dict_comp_id_pred:
  assumes "\<And>x v. snd (f x) = Inr v \<Longrightarrow> P v"
    and "\<forall>kv \<in> set acc. P (snd kv)"
    and "snd (dict_comp_id f xs acc) = Inr its"
  shows "\<forall>kv \<in> set its. P (snd kv)"
  using assms(2,3)
proof (induction xs arbitrary: acc)
  case Nil
  then show ?case by simp
next
  case (Cons x xs)
  obtain t r where fx: "f x = (t, r)" by (cases "f x")
  show ?case
  proof (cases r)
    case (Inl e)
    with Cons.prems fx show ?thesis by simp
  next
    case (Inr v)
    with fx assms(1) [of x v] have "P v" by simp
    with Cons.prems(1) have "\<forall>kv \<in> set (dict_set acc ''id'' v). P (snd kv)"
      by (rule dict_set_pred)
    moreover from Cons.prems(2) fx Inr
    have "snd (dict_comp_id f xs (dict_set acc ''id'' v)) = Inr its"
      by (simp split: prod.splits)
    ultimately show ?thesis by (rule Cons.IH)
  qed
qed

lemma SessionCollection_create_flag:
  "snd (SessionCollection_create send loads sd sc) = Inr m
   \<Longrightarrow> instance_is_sync m = coll_is_sync sc"
  by (auto simp: SessionCollection_create_def Let_def snd_io_bind_Inr Session_instance_def
           dest: Model_instance_flag)

lemma TaskCollection_create_flag:
  "snd (TaskCollection_create send loads md tc td) = Inr tk
   \<Longrightarrow> instance_is_sync tk = coll_is_sync tc"
  by (auto simp: TaskCollection_create_def Let_def snd_io_bind_Inr dest: Task_instance_flag)

lemma DeploymentCollection_create_flag:
  "snd (DeploymentCollection_create send loads dc config) = Inr m
   \<Longrightarrow> instance_is_sync m = coll_is_sync dc"
  by (auto simp: DeploymentCollection_create_def Let_def snd_io_bind_Inr Deployment_instance_def
           dest: Model_instance_flag)

lemma DeploymentCollection_get_flag:
  "snd (DeploymentCollection_get send dc dep) = Inr m \<Longrightarrow> instance_is_sync m = coll_is_sync dc"
  by (auto simp: DeploymentCollection_get_def Let_def snd_io_bind_Inr Deployment_instance_def
           dest: Model_instance_flag)

lemma Deployment_tasks_flag:
  assumes "snd (Deployment_tasks send loads d) = Inr col"
  shows "coll_is_sync col = instance_is_sync d \<and>
         (\<forall>kv \<in> set (items col). instance_is_sync (snd kv) = instance_is_sync d)"
proof -
  let ?f = "\<lambda>task_def. io_bind (lift (py_getattr task_def ''task_id''))
                   (\<lambda>tid. io_bind (lift (py_getattr task_def ''session_id''))
                   (\<lambda>sid. Task_instance (instance_is_sync d) (model_client d)
                             (model_id d) tid sid))"
  from assms obtain xs its where
    its: "snd (dict_comp_id ?f xs []) = Inr its"
    and col: "snd (TaskCollection_instance (instance_is_sync d) (model_client d)
                     (model_id d) its) = Inr col"
    by (auto simp: Deployment_tasks_def Let_def snd_io_bind_Inr)
  have "\<forall>kv \<in> set its. instance_is_sync (snd kv) = instance_is_sync d"
    by (rule dict_comp_id_pred [where f = ?f, OF _ _ its])
       (auto simp: snd_io_bind_Inr dest: Task_instance_flag)
  with col show ?thesis by (auto simp: TaskCollection_instance_def)
qed

lemma Deployment_sessions_flag:
  assumes "snd (Deployment_sessions send loads d) = Inr col"
  shows "coll_is_sync col = instance_is_sync d \<and>
         (\<forall>kv \<in> set (items col). instance_is_sync (snd kv) = instance_is_sync d)"
proof -
  let ?f = "\<lambda>session_def. io_bind (lift (py_getattr session_def ''session_id''))
                   (\<lambda>sid. Session_instance (instance_is_sync d) (model_client d) sid)"
  from assms obtain xs its where
    its: "snd (dict_comp_id ?f xs []) = Inr its"
    and col: "snd (SessionCollection_instance (instance_is_sync d) (model_client d)
                     (model_id d) its) = Inr col"
    by (auto simp: Deployment_sessions_def Let_def snd_io_bind_Inr)
  have "\<forall>kv \<in> set its. instance_is_sync (snd kv) = instance_is_sync d"
    by (rule dict_comp_id_pred [where f = ?f, OF _ _ its])
       (auto simp: snd_io_bind_Inr Session_instance_def dest: Model_instance_flag)
  with col show ?thesis by (auto simp: SessionCollection_instance_def)
qed

lemma ApiServer_deployments_flag:
  assumes "snd (ApiServer_deployments send loads a) = Inr col"
  shows "coll_is_sync col = instance_is_sync a \<and>
         (\<forall>kv \<in> set (items col). instance_is_sync (snd kv) = instance_is_sync a)"
proof -
  let ?f = "\<lambda>name. Deployment_instance (instance_is_sync a) (model_client a) name"
  from assms obtain xs its where
    its: "snd (dict_comp_id ?f xs []) = Inr its"
    and col: "snd (DeploymentCollection_instance (instance_is_sync a) (model_client a) its)
                = Inr col"
    by (auto simp: ApiServer_deployments_def Let_def snd_io_bind_Inr)
  have "\<forall>kv \<in> set its. instance_is_sync (snd kv) = instance_is_sync a"
    by (rule dict_comp_id_pred [where f = ?f, OF _ _ its])
       (auto simp: Deployment_instance_def dest: Model_instance_flag)
  with col show ?thesis by (auto simp: DeploymentCollection_instance_def)
qed

text \<open>
  C4. Every method that returns a new resource object (\<^verbatim>\<open>SessionCollection.create\<close>,
  \<^verbatim>\<open>TaskCollection.create\<close>, \<^verbatim>\<open>DeploymentCollection.create\<close>,
  \<^verbatim>\<open>DeploymentCollection.get\<close>, \<^verbatim>\<open>Deployment.tasks\<close>, \<^verbatim>\<open>Deployment.sessions\<close>,
  \<^verbatim>\<open>ApiServer.deployments\<close>) returns it in the calling mode of the object the method was
  called on: the returned model or collection has the creator's flag, and so has every
  item of a returned collection.
\<close>

theorem make_sync_propagates:
  "(\<forall>m. snd (SessionCollection_create send loads sd sc) = Inr m
        \<longrightarrow> instance_is_sync m = coll_is_sync sc)
   \<and> (\<forall>tk. snd (TaskCollection_create send loads md tc td) = Inr tk
        \<longrightarrow> instance_is_sync tk = coll_is_sync tc)
   \<and> (\<forall>m. snd (DeploymentCollection_create send loads dc config) = Inr m
        \<longrightarrow> instance_is_sync m = coll_is_sync dc)
   \<and> (\<forall>m. snd (DeploymentCollection_get send dc dep) = Inr m
        \<longrightarrow> instance_is_sync m = coll_is_sync dc)
   \<and> (\<forall>col. snd (Deployment_tasks send loads d) = Inr col
        \<longrightarrow> coll_is_sync col = instance_is_sync d
            \<and> (\<forall>kv \<in> set (items col). instance_is_sync (snd kv) = instance_is_sync d))
   \<and> (\<forall>col. snd (Deployment_sessions send loads d) = Inr col
        \<longrightarrow> coll_is_sync col = instance_is_sync d
            \<and> (\<forall>kv \<in> set (items col). instance_is_sync (snd kv) = instance_is_sync d))
   \<and> (\<forall>col. snd (ApiServer_deployments send loads a) = Inr col
        \<longrightarrow> coll_is_sync col = instance_is_sync a
            \<and> (\<forall>kv \<in> set (items col). instance_is_sync (snd kv) = instance_is_sync a))"
proof (intro conjI allI impI)
  fix m assume "snd (SessionCollection_create send loads sd sc) = Inr m"
  then show "instance_is_sync m = coll_is_sync sc" by (rule SessionCollection_create_flag)
next
  fix tk assume "snd (TaskCollection_create send loads md tc td) = Inr tk"
  then show "instance_is_sync tk = coll_is_sync tc" by (rule TaskCollection_create_flag)
next
  fix m assume "snd (DeploymentCollection_create send loads dc config) = Inr m"
  then show "instance_is_sync m = coll_is_sync dc" by (rule DeploymentCollection_create_flag)
next
  fix m assume "snd (DeploymentCollection_get send dc dep) = Inr m"
  then show "instance_is_sync m = coll_is_sync dc" by (rule DeploymentCollection_get_flag)
next
  fix col assume "snd (Deployment_tasks send loads d) = Inr col"
  then show "coll_is_sync col = instance_is_sync d"
    and "\<forall>kv \<in> set (items col). instance_is_sync (snd kv) = instance_is_sync d"
    using Deployment_tasks_flag by blast+
next
  fix col assume "snd (Deployment_sessions send loads d) = Inr col"
  then show "coll_is_sync col = instance_is_sync d"
    and "\<forall>kv \<in> set (items col). instance_is_sync (snd kv) = instance_is_sync d"
    using Deployment_sessions_flag by blast+
next
  fix col assume "snd (ApiServer_deployments send loads a) = Inr col"
  then show "coll_is_sync col = instance_is_sync a"
    and "\<forall>kv \<in> set (items col). instance_is_sync (snd kv) = instance_is_sync a"
    using ApiServer_deployments_flag by blast+
qed

text \<open>Unfolding one run of a method on a concrete response.\<close>

lemmas run_simps =
  Let_def client_request_def plain_request_def io_bind_def lift_def ret_def resp_json_def
  decoder_def local_client_def

text \<open>
  One run of each method of C4 on a client object in synchronous mode: each returns, and
  what it returns is in synchronous mode.
\<close>

theorem make_sync_propagates_witness:
  \<open>snd (SessionCollection_create
          (\<lambda>_. Inr \<lparr>status_code = 200, resp_text = ''{"session_id": "s1"}''\<rparr>)
          (decoder [(''{"session_id": "s1"}'', JObject [(''session_id'', JStr ''s1'')])])
          given_session_id sync_sessions)
     = Inr \<lparr>model_client = local_client, instance_is_sync = True, model_id = ''s1''\<rparr>
   \<and> snd (TaskCollection_create
          (\<lambda>_. Inr \<lparr>status_code = 200, resp_text = ''{"task_id": "t1", "session_id": "s1"}''\<rparr>)
          (decoder [(''{"task_id": "t1", "session_id": "s1"}'',
                     JObject [(''task_id'', JStr ''t1''), (''session_id'', JStr ''s1'')])])
          (\<lambda>d. d) sync_tasks (JObject [(''input'', JStr ''hello'')]))
     = Inr \<lparr>model_client = local_client, instance_is_sync = True, model_id = ''t1'',
             deployment_id = ''d1'', session_id = ''s1''\<rparr>
   \<and> snd (DeploymentCollection_create
          (\<lambda>_. Inr \<lparr>status_code = 200, resp_text = ''{"name": "d1"}''\<rparr>)
          (decoder [(''{"name": "d1"}'', JObject [(''name'', JStr ''d1'')])])
          sync_deployments ''name: d1'')
     = Inr \<lparr>model_client = local_client, instance_is_sync = True, model_id = ''d1''\<rparr>
   \<and> snd (DeploymentCollection_get
          (\<lambda>_. Inr \<lparr>status_code = 200, resp_text = ''{}''\<rparr>) sync_deployments ''d1'')
     = Inr \<lparr>model_client = local_client, instance_is_sync = True, model_id = ''d1''\<rparr>
   \<and> snd (Deployment_tasks
          (\<lambda>_. Inr \<lparr>status_code = 200, resp_text = ''[]''\<rparr>)
          (decoder [(''[]'', JArray [])]) sync_deployment)
     = Inr \<lparr>coll_client = local_client, coll_is_sync = True, items = [],
             coll_deployment_id = ''d1''\<rparr>
   \<and> snd (Deployment_sessions
          (\<lambda>_. Inr \<lparr>status_code = 200, resp_text = ''[]''\<rparr>)
          (decoder [(''[]'', JArray [])]) sync_deployment)
     = Inr \<lparr>coll_client = local_client, coll_is_sync = True, items = [],
             coll_deployment_id = ''d1''\<rparr>
   \<and> snd (ApiServer_deployments
          (\<lambda>_. Inr \<lparr>status_code = 200, resp_text = ''["a"]''\<rparr>)
          (decoder [(''["a"]'', JArray [JStr ''a''])]) an_apiserver)
     = Inr \<lparr>coll_client = local_client, coll_is_sync = True,
             items = [(''id'', \<lparr>model_client = local_client, instance_is_sync = True,
                                 model_id = ''a''\<rparr>)]\<rparr>
   \<and> coll_is_sync sync_sessions \<and> coll_is_sync sync_tasks \<and> coll_is_sync sync_deployments
   \<and> instance_is_sync sync_deployment \<and> instance_is_sync an_apiserver\<close>
proof -
  have a1: \<open>snd (SessionCollection_create
          (\<lambda>_. Inr \<lparr>status_code = 200, resp_text = ''{"session_id": "s1"}''\<rparr>)
          (decoder [(''{"session_id": "s1"}'', JObject [(''session_id'', JStr ''s1'')])])
          given_session_id sync_sessions)
     = Inr \<lparr>model_client = local_client, instance_is_sync = True, model_id = ''s1''\<rparr>\<close>
    by (simp add: SessionCollection_create_def run_simps py_kwargs_def given_session_id_def
        Session_instance_def Model_instance_def validate_str_def sync_sessions_def)
  have a2: \<open>snd (TaskCollection_create
          (\<lambda>_. Inr \<lparr>status_code = 200, resp_text = ''{"task_id": "t1", "session_id": "s1"}''\<rparr>)
          (decoder [(''{"task_id": "t1", "session_id": "s1"}'',
                     JObject [(''task_id'', JStr ''t1''), (''session_id'', JStr ''s1'')])])
          (\<lambda>d. d) sync_tasks (JObject [(''input'', JStr ''hello'')]))
     = Inr \<lparr>model_client = local_client, instance_is_sync = True, model_id = ''t1'',
             deployment_id = ''d1'', session_id = ''s1''\<rparr>\<close>
    by (simp add: TaskCollection_create_def run_simps py_getitem_def Task_instance_def
        validate_str_def sync_tasks_def)
  have a3: \<open>snd (DeploymentCollection_create
          (\<lambda>_. Inr \<lparr>status_code = 200, resp_text = ''{"name": "d1"}''\<rparr>)
          (decoder [(''{"name": "d1"}'', JObject [(''name'', JStr ''d1'')])])
          sync_deployments ''name: d1'')
     = Inr \<lparr>model_client = local_client, instance_is_sync = True, model_id = ''d1''\<rparr>\<close>
    by (simp add: DeploymentCollection_create_def run_simps py_dict_get_def
        Deployment_instance_def Model_instance_def validate_str_def sync_deployments_def)
  have a4: \<open>snd (DeploymentCollection_get
          (\<lambda>_. Inr \<lparr>status_code = 200, resp_text = ''{}''\<rparr>) sync_deployments ''d1'')
     = Inr \<lparr>model_client = local_client, instance_is_sync = True, model_id = ''d1''\<rparr>\<close>
    by (simp add: DeploymentCollection_get_def run_simps
        Deployment_instance_def Model_instance_def validate_str_def sync_deployments_def)
  have a5: \<open>snd (Deployment_tasks
          (\<lambda>_. Inr \<lparr>status_code = 200, resp_text = ''[]''\<rparr>)
          (decoder [(''[]'', JArray [])]) sync_deployment)
     = Inr \<lparr>coll_client = local_client, coll_is_sync = True, items = [],
             coll_deployment_id = ''d1''\<rparr>\<close>
    by (simp add: Deployment_tasks_def run_simps py_iter_def TaskCollection_instance_def
        sync_deployment_def)
  have a6: \<open>snd (Deployment_sessions
          (\<lambda>_. Inr \<lparr>status_code = 200, resp_text = ''[]''\<rparr>)
          (decoder [(''[]'', JArray [])]) sync_deployment)
     = Inr \<lparr>coll_client = local_client, coll_is_sync = True, items = [],
             coll_deployment_id = ''d1''\<rparr>\<close>
    by (simp add: Deployment_sessions_def run_simps py_iter_def SessionCollection_instance_def
        sync_deployment_def)
  have a7: \<open>snd (ApiServer_deployments
          (\<lambda>_. Inr \<lparr>status_code = 200, resp_text = ''["a"]''\<rparr>)
          (decoder [(''["a"]'', JArray [JStr ''a''])]) an_apiserver)
     = Inr \<lparr>coll_client = local_client, coll_is_sync = True,
             items = [(''id'', \<lparr>model_client = local_client, instance_is_sync = True,
                                 model_id = ''a''\<rparr>)]\<rparr>\<close>
    by (simp add: ApiServer_deployments_def run_simps py_iter_def Deployment_instance_def
        Model_instance_def validate_str_def DeploymentCollection_instance_def an_apiserver_def)
  note P = make_sync_propagates [THEN conjunct1, rule_format, OF a1]
    make_sync_propagates [THEN conjunct2, THEN conjunct1, rule_format, OF a2]
    make_sync_propagates [THEN conjunct2, THEN conjunct2, THEN conjunct1, rule_format, OF a3]
    make_sync_propagates [THEN conjunct2, THEN conjunct2, THEN conjunct2, THEN conjunct1,
      rule_format, OF a4]
    make_sync_propagates [THEN conjunct2, THEN conjunct2, THEN conjunct2, THEN conjunct2,
      THEN conjunct1, rule_format, OF a5, THEN conjunct1]
    make_sync_propagates [THEN conjunct2, THEN conjunct2, THEN conjunct2, THEN conjunct2,
      THEN conjunct2, THEN conjunct1, rule_format, OF a6, THEN conjunct1]
    make_sync_propagates [THEN conjunct2, THEN conjunct2, THEN conjunct2, THEN conjunct2,
      THEN conjunct2, THEN conjunct2, rule_format, OF a7, THEN conjunct1]
  from P have flags: "coll_is_sync sync_sessions" "coll_is_sync sync_tasks"
    "coll_is_sync sync_deployments" "instance_is_sync sync_deployment"
    "instance_is_sync an_apiserver"
    by simp_all
  from a1 a2 a3 a4 a5 a6 a7 flags show ?thesis by (intro conjI)
qed

subsection \<open>Listing\<close>

text \<open>
  The three listing methods store every model under the literal key \<^verbatim>\<open>"id"\<close>, so the
  dict they build never holds more than one item.
\<close>

lemma dict_comp_id_at_most_one:
  assumes "snd (dict_comp_id f xs acc) = Inr its"
    and "acc = [] \<or> (\<exists>v. acc = [(''id'', v)])"
  shows "length its \<le> 1"
  using assms
proof (induction xs arbitrary: acc)
  case Nil
  then show ?case by auto
next
  case (Cons x xs)
  obtain t r where fx: "f x = (t, r)" by (cases "f x")
  show ?case
  proof (cases r)
    case (Inl e)
    with Cons.prems fx show ?thesis by simp
  next
    case (Inr v)
    with Cons.prems(1) fx
    have "snd (dict_comp_id f xs (dict_set acc ''id'' v)) = Inr its"
      by (simp split: prod.splits)
    moreover from Cons.prems(2)
    have "dict_set acc ''id'' v = [] \<or> (\<exists>w. dict_set acc ''id'' v = [(''id'', w)])"
      by auto
    ultimately show ?thesis by (rule Cons.IH)
  qed
qed

lemma deployments_at_most_one_item:
  "snd (ApiServer_deployments send loads a) = Inr col \<Longrightarrow> length (items col) \<le> 1"
  by (auto simp: ApiServer_deployments_def Let_def snd_io_bind_Inr
        DeploymentCollection_instance_def
      dest!: dict_comp_id_at_most_one)

text \<open>
  \<^verbatim>\<open>Deployment.tasks\<close> and \<^verbatim>\<open>Deployment.sessions\<close> read \<^verbatim>\<open>task_def.task_id\<close> and
  \<^verbatim>\<open>session_def.session_id\<close> as attributes of decoded JSON values, so a list response
  with at least one entry raises.
\<close>

lemma tasks_nonempty_raises:
  "loads (resp_text r) = Inr (JArray (x # xs))
   \<Longrightarrow> snd (Deployment_tasks (\<lambda>_. Inr r) loads d) = Inl (AttributeError ''task_id'')"
  by (simp add: Deployment_tasks_def Let_def client_request_def io_bind_def lift_def
      resp_json_def py_iter_def py_getattr_def)

lemma sessions_nonempty_raises:
  "loads (resp_text r) = Inr (JArray (x # xs))
   \<Longrightarrow> snd (Deployment_sessions (\<lambda>_. Inr r) loads d) = Inl (AttributeError ''session_id'')"
  by (simp add: Deployment_sessions_def Let_def client_request_def io_bind_def lift_def
      resp_json_def py_iter_def py_getattr_def)

text \<open>
  C5. For a list response with n entries, the collection a listing method returns is
  claimed to hold n items, one model per entry. \<^verbatim>\<open>ApiServer.deployments\<close> answers the
  two-entry response \<^verbatim>\<open>["a", "b"]\<close> with a collection of one item, the deployment
  \<^verbatim>\<open>b\<close> under the key \<^verbatim>\<open>"id"\<close>; the deployment \<^verbatim>\<open>a\<close> is lost.
\<close>

theorem deployments_two_names_one_item:
  \<open>ApiServer_deployments
     (\<lambda>_. Inr \<lparr>status_code = 200, resp_text = ''["a", "b"]''\<rparr>)
     (decoder [(''["a", "b"]'', JArray [JStr ''a'', JStr ''b''])]) an_apiserver
   = ([Request \<lparr>req_method = ''GET'', req_url = ''http://localhost:4501/deployments/'',
                 req_params = [], req_json = None, req_files = [], req_verify = True,
                 req_timeout = Some 120\<rparr>],
      Inr \<lparr>coll_client = local_client, coll_is_sync = True,
            items = [(''id'', \<lparr>model_client = local_client, instance_is_sync = True,
                                 model_id = ''b''\<rparr>)]\<rparr>)\<close>
  by (simp add: ApiServer_deployments_def run_simps py_iter_def Deployment_instance_def
      Model_instance_def validate_str_def DeploymentCollection_instance_def an_apiserver_def)

subsection \<open>Construction\<close>

text \<open>
  C9. Constructing a Model or a Collection (the \<^verbatim>\<open>instance\<close> operation), for every
  resource kind and every choice of client, \<^verbatim>\<open>make_sync\<close>, id or items, performs no
  network I/O and has no other effect: its trace is empty, whether it returns the object
  or rejects an argument.
\<close>

theorem instance_issues_no_request:
  "fst (Session_instance make_sync c idv) = []
   \<and> fst (Deployment_instance make_sync c idv) = []
   \<and> fst (ApiServer_instance make_sync c idv) = []
   \<and> fst (Task_instance make_sync c dep idv sidv) = []
   \<and> fst (SessionCollection_instance make_sync c dep sessions) = []
   \<and> fst (TaskCollection_instance make_sync c dep tasks) = []
   \<and> fst (DeploymentCollection_instance make_sync c deps) = []"
  by (simp add: Session_instance_def Deployment_instance_def ApiServer_instance_def
      SessionCollection_instance_def TaskCollection_instance_def
      DeploymentCollection_instance_def)

subsection \<open>Task.results\<close>

text \<open>
  C10. \<^verbatim>\<open>Task.results\<close> succeeds only when the response body is a JSON-encoded string
  whose contents are the JSON text of a task result: it decodes the body and hands the
  decoded value to \<^verbatim>\<open>model_validate_json\<close>. A response whose body is directly the JSON
  object of a task result raises a validation error.
\<close>

theorem results_needs_doubly_encoded_body:
  "(\<forall>res. snd (Task_results (\<lambda>_. Inr r) loads task_result_of_text self) = Inr res
       \<longrightarrow> (\<exists>s. loads (resp_text r) = Inr (JStr s) \<and> task_result_of_text s = Inr res))
   \<and> (\<forall>kvs. loads (resp_text r) = Inr (JObject kvs)
       \<longrightarrow> snd (Task_results (\<lambda>_. Inr r) loads task_result_of_text self)
           = Inl ValidationError)"
  by (auto simp: Task_results_def Let_def client_request_def io_bind_def lift_def resp_json_def
      model_validate_json_def split: sum.splits json.splits)

text \<open>
  Both halves of C10 on one task result: the body that is the JSON string of its text is
  accepted, the body that is its text is rejected.
\<close>

theorem results_needs_doubly_encoded_body_witness:
  "snd (Task_results
          (\<lambda>_. Inr \<lparr>status_code = 200, resp_text = json_quote result_text\<rparr>)
          (decoder [(json_quote result_text, JStr result_text), (result_text, result_object)])
          (decoder [(result_text, result_object)]) a_task)
     = Inr result_object
   \<and> decoder [(json_quote result_text, JStr result_text), (result_text, result_object)]
        (json_quote result_text) = Inr (JStr result_text)
   \<and> decoder [(result_text, result_object)] result_text = Inr result_object
   \<and> decoder [(json_quote result_text, JStr result_text), (result_text, result_object)]
        result_text
       = Inr (JObject [(''task_id'', JStr ''t1''), (''history'', JArray []),
                       (''result'', JStr ''ok'')])
   \<and> snd (Task_results
          (\<lambda>_. Inr \<lparr>status_code = 200, resp_text = result_text\<rparr>)
          (decoder [(json_quote result_text, JStr result_text), (result_text, result_object)])
          (decoder [(result_text, result_object)]) a_task)
       = Inl ValidationError"
proof -
  let ?loads = "decoder [(json_quote result_text, JStr result_text), (result_text, result_object)]"
  let ?of_text = "decoder [(result_text, result_object)]"
  have ne: "json_quote result_text \<noteq> result_text"
    by (simp add: json_quote_def result_text_def)
  have d1: "?loads (json_quote result_text) = Inr (JStr result_text)"
    by (simp add: decoder_def)
  have d2: "?of_text result_text = Inr result_object"
    by (simp add: decoder_def)
  have d3: "?loads result_text = Inr (JObject [(''task_id'', JStr ''t1''),
              (''history'', JArray []), (''result'', JStr ''ok'')])"
    using ne by (simp add: decoder_def result_object_def)
  have ok: "snd (Task_results
          (\<lambda>_. Inr \<lparr>status_code = 200, resp_text = json_quote result_text\<rparr>)
          ?loads ?of_text a_task) = Inr result_object"
    using d1 d2
    by (simp add: Task_results_def Let_def client_request_def io_bind_def lift_def
        resp_json_def model_validate_json_def)
  have bad: "snd (Task_results
          (\<lambda>_. Inr \<lparr>status_code = 200, resp_text = result_text\<rparr>)
          ?loads ?of_text a_task) = Inl ValidationError"
    using results_needs_doubly_encoded_body
            [where r = "\<lparr>status_code = 200, resp_text = result_text\<rparr>" and loads = ?loads
               and task_result_of_text = ?of_text and self = a_task,
             THEN conjunct2, rule_format, of "[(''task_id'', JStr ''t1''),
               (''history'', JArray []), (''result'', JStr ''ok'')]"]
      d3
    by simp
  from results_needs_doubly_encoded_body
         [where r = "\<lparr>status_code = 200, resp_text = json_quote result_text\<rparr>"
            and loads = ?loads and task_result_of_text = ?of_text and self = a_task,
          THEN conjunct1, rule_format, OF ok]
  have "\<exists>s. ?loads (json_quote result_text) = Inr (JStr s) \<and> ?of_text s = Inr result_object"
    by simp
  with ok d1 d2 d3 bad show ?thesis by (intro conjI)
qed

end
